theory Spec2Isabelle
  imports Main "HOL-Library.AList"
begin

section \<open>Data model\<close>

text \<open>
  JavaScript values as far as the MCP client utilities inspect them: \<open>null\<close>, booleans,
  numbers, strings, arrays and plain objects (an association list, looked up with
  \<open>map_of\<close>). A value that may be \<open>undefined\<close> is a \<open>json option\<close>.
\<close>

datatype json =
    JNull
  | JBool bool
  | JNum int
  | JStr string
  | JArr "json list"
  | JObj "(string \<times> json) list"

text \<open>\<open>McpTool\<close>: the capability descriptor returned by \<open>client.listTools\<close>.\<close>

record McpTool =
  name :: string
  description :: "string option"
  inputSchema :: "json option"

section \<open>Tool selection: \<open>getSelectedTools\<close>\<close>

text \<open>
  \<open>mode\<close> is a string at run time; \<open>includeTools\<close> and \<open>excludeTools\<close> are optional
  arrays. \<open>new Set(xs).has(n)\<close> is membership of \<open>n\<close> in \<open>xs\<close>.
\<close>

definition getSelectedTools ::
  "string \<Rightarrow> string list option \<Rightarrow> string list option \<Rightarrow> McpTool list \<Rightarrow> McpTool list" where
  "getSelectedTools mode includeTools excludeTools tools =
     (if mode = ''selected'' then
        (case includeTools of
           None \<Rightarrow> tools
         | Some inc \<Rightarrow>
             if length inc = 0 then tools
             else filter (\<lambda>tool. name tool \<in> set inc) tools)
      else if mode = ''except'' then
        (let except = (case excludeTools of None \<Rightarrow> [] | Some exc \<Rightarrow> exc)
         in filter (\<lambda>tool. name tool \<notin> set except) tools)
      else tools)"

section \<open>Address normalisation: \<open>normalizeAndValidateUrl\<close>\<close>

text \<open>
  The regular expression \<open>/^https?:\/\//i\<close>: anchored at the start, the letters
  \<open>h t t p\<close>, an optional \<open>s\<close>, then \<open>://\<close>. The \<open>i\<close> flag makes each letter
  match in either case.
\<close>

definition ci :: "char \<Rightarrow> char \<Rightarrow> char \<Rightarrow> bool" where
  "ci lo up c \<longleftrightarrow> c = lo \<or> c = up"

fun starts_with :: "string \<Rightarrow> string \<Rightarrow> bool" where
  "starts_with [] s = True"
| "starts_with (p # ps) [] = False"
| "starts_with (p # ps) (c # cs) = (p = c \<and> starts_with ps cs)"

fun test_http_scheme :: "string \<Rightarrow> bool" where
  "test_http_scheme (h # t1 # t2 # p # rest) =
     (ci CHR ''h'' CHR ''H'' h \<and> ci CHR ''t'' CHR ''T'' t1 \<and>
      ci CHR ''t'' CHR ''T'' t2 \<and> ci CHR ''p'' CHR ''P'' p \<and>
      ((case rest of
          s # rest' \<Rightarrow> ci CHR ''s'' CHR ''S'' s \<and> starts_with ''://'' rest'
        | [] \<Rightarrow> False)
       \<or> starts_with ''://'' rest))"
| "test_http_scheme _ = False"

definition withProtocol :: "string \<Rightarrow> string" where
  "withProtocol input = (if \<not> test_http_scheme input then ''https://'' @ input else input)"

text \<open>
  \<open>new URL(...)\<close> is the platform's parser: a parameter \<open>newURL\<close> that returns the
  parsed URL or the error it throws. \<open>safeCreateUrl\<close> turns the throw into a result.
\<close>

definition safeCreateUrl :: "(string \<Rightarrow> 'e + 'u) \<Rightarrow> string \<Rightarrow> 'e + 'u" where
  "safeCreateUrl newURL url = newURL url"

definition normalizeAndValidateUrl :: "(string \<Rightarrow> 'e + 'u) \<Rightarrow> string \<Rightarrow> 'e + 'u" where
  "normalizeAndValidateUrl newURL input =
     (let parsedUrl = safeCreateUrl newURL (withProtocol input)
      in case parsedUrl of Inl err \<Rightarrow> Inl err | Inr u \<Rightarrow> parsedUrl)"

text \<open>ASCII lower-casing, to state "in any letter case".\<close>

definition lower :: "char \<Rightarrow> char" where
  "lower c =
     (case map_of (zip ''ABCDEFGHIJKLMNOPQRSTUVWXYZ'' ''abcdefghijklmnopqrstuvwxyz'') c of
        None \<Rightarrow> c
      | Some l \<Rightarrow> l)"

definition begins_with_scheme :: "string \<Rightarrow> bool" where
  "begins_with_scheme input \<longleftrightarrow>
     map lower (take 7 input) = ''http://'' \<or> map lower (take 8 input) = ''https://''"

section \<open>Errors and JavaScript helpers\<close>

text \<open>
  The exception classes the code throws or catches. \<open>Error\<close> stands for any other
  exception (a rejected request, a failed handshake); each carries its message.
\<close>

datatype error =
    Error string
  | TypeError string
  | UnsupportedSchemaError string
  | NodeOperationError string

fun message :: "error \<Rightarrow> string" where
  "message (Error m) = m"
| "message (TypeError m) = m"
| "message (UnsupportedSchemaError m) = m"
| "message (NodeOperationError m) = m"

fun is_UnsupportedSchemaError :: "error \<Rightarrow> bool" where
  "is_UnsupportedSchemaError (UnsupportedSchemaError m) = True"
| "is_UnsupportedSchemaError _ = False"

text \<open>Truthiness of a possibly undefined value, as \<open>if (v)\<close> and \<open>!v\<close> test it.\<close>

fun truthy :: "json option \<Rightarrow> bool" where
  "truthy None = False"
| "truthy (Some JNull) = False"
| "truthy (Some (JBool b)) = b"
| "truthy (Some (JNum n)) = (n \<noteq> 0)"
| "truthy (Some (JStr s)) = (s \<noteq> [])"
| "truthy (Some (JArr xs)) = True"
| "truthy (Some (JObj fs)) = True"

text \<open>Property access \<open>v.key\<close>: \<open>undefined\<close> unless \<open>v\<close> is an object that has the key.\<close>

fun get_prop :: "string \<Rightarrow> json \<Rightarrow> json option" where
  "get_prop key (JObj fs) = map_of fs key"
| "get_prop key _ = None"

section \<open>Capability listing: \<open>getAllTools\<close>\<close>

text \<open>
  The response of \<open>client.listTools({ cursor })\<close>. \<open>tools = None\<close> is a \<open>tools\<close> field
  that is missing or not an array; \<open>nextCursor = None\<close> is an absent cursor. The client
  is a function from the requested cursor to the response, or to the error the request
  rejects with.
\<close>

record ListToolsResult =
  tools :: "McpTool list option"
  nextCursor :: "string option"

type_synonym listTools = "string option \<Rightarrow> error + ListToolsResult"

text \<open>\<open>Array.isArray(response.tools) ? response.tools : []\<close>\<close>

definition currentTools :: "ListToolsResult \<Rightarrow> McpTool list" where
  "currentTools response = (case tools response of Some ts \<Rightarrow> ts | None \<Rightarrow> [])"

text \<open>\<open>if (nextCursor)\<close>: an absent cursor and the empty string are both falsy.\<close>

definition hasNext :: "string option \<Rightarrow> bool" where
  "hasNext c \<longleftrightarrow> c \<noteq> None \<and> c \<noteq> Some []"

text \<open>
  The recursion follows the cursors the server hands out and need not end (a server may
  return cursors forever): \<open>None\<close> is a listing that never returns. A rejected request
  rejects the whole call, whatever the earlier pages held.
\<close>

partial_function (option) getAllTools ::
  "listTools \<Rightarrow> string option \<Rightarrow> (error + McpTool list) option" where
  "getAllTools client cursor =
     (case client cursor of
        Inl err \<Rightarrow> Some (Inl err)
      | Inr response \<Rightarrow>
          if hasNext (nextCursor response) then
            Option.bind (getAllTools client (nextCursor response))
              (\<lambda>r. case r of
                     Inl err \<Rightarrow> Some (Inl err)
                   | Inr nextTools \<Rightarrow> Some (Inr (currentTools response @ nextTools)))
          else Some (Inr (currentTools response)))"

text \<open>
  A cursor chain as the specification describes it: the request at \<open>c\<close> answers with the
  first page, each page but the last names the cursor of the next one, and the last page
  has no \<open>nextCursor\<close>.
\<close>

fun cursor_chain :: "listTools \<Rightarrow> string option \<Rightarrow> ListToolsResult list \<Rightarrow> bool" where
  "cursor_chain client c [] = False"
| "cursor_chain client c [p] = (client c = Inr p \<and> nextCursor p = None)"
| "cursor_chain client c (p # q # ps) =
     (client c = Inr p \<and> nextCursor p \<noteq> None \<and> cursor_chain client (nextCursor p) (q # ps))"

text \<open>
  The chain as the code follows it: it goes on exactly while the page's cursor is truthy,
  so every continuation cursor is a non-empty string and the last page's cursor is absent
  or empty.
\<close>

fun followed_chain :: "listTools \<Rightarrow> string option \<Rightarrow> ListToolsResult list \<Rightarrow> bool" where
  "followed_chain client c [] = False"
| "followed_chain client c [p] = (client c = Inr p \<and> \<not> hasNext (nextCursor p))"
| "followed_chain client c (p # q # ps) =
     (client c = Inr p \<and> hasNext (nextCursor p) \<and> followed_chain client (nextCursor p) (q # ps))"

text \<open>
  A chain that breaks: the pages answer and each names a non-empty next cursor, then the
  request after the last of them rejects with \<open>err\<close>.
\<close>

fun failing_chain ::
  "listTools \<Rightarrow> string option \<Rightarrow> ListToolsResult list \<Rightarrow> error \<Rightarrow> bool" where
  "failing_chain client c [] err = (client c = Inl err)"
| "failing_chain client c (p # ps) err =
     (client c = Inr p \<and> hasNext (nextCursor p) \<and> failing_chain client (nextCursor p) ps err)"

section \<open>Tool-call errors: \<open>getErrorDescriptionFromToolCall\<close> and \<open>createCallTool\<close>\<close>

text \<open>
  The predicate of \<open>find\<close>: \<open>content && typeof content === 'object' &&
  typeof content.text === 'string'\<close>, and the \<open>text\<close> it selects.
\<close>

fun text_of :: "json \<Rightarrow> string option" where
  "text_of (JObj fs) = (case map_of fs ''text'' of Some (JStr s) \<Rightarrow> Some s | _ \<Rightarrow> None)"
| "text_of _ = None"

definition getErrorDescriptionFromToolCall :: "json option \<Rightarrow> string option" where
  "getErrorDescriptionFromToolCall result =
     (case result of
        Some (JObj fs) \<Rightarrow>
          (case map_of fs ''content'' of
             Some (JArr content) \<Rightarrow>
               (case find (\<lambda>c. text_of c \<noteq> None) content of
                  None \<Rightarrow> None
                | Some c \<Rightarrow> text_of c)
           | _ \<Rightarrow>
               (case map_of fs ''toolResult'' of
                  Some (JStr toolResult) \<Rightarrow> Some toolResult
                | _ \<Rightarrow>
                    (case map_of fs ''message'' of
                       Some (JStr msg) \<Rightarrow> Some msg
                     | _ \<Rightarrow> None)))
      | _ \<Rightarrow> None)"

text \<open>
  The precedence in the specification's words: the text of the first textual element of
  a content array, else the \<open>toolResult\<close> string, else the \<open>message\<close> string, else none.
\<close>

definition content_text :: "json \<Rightarrow> string option" where
  "content_text result =
     (case get_prop ''content'' result of
        Some (JArr content) \<Rightarrow>
          (case find (\<lambda>c. text_of c \<noteq> None) content of None \<Rightarrow> None | Some c \<Rightarrow> text_of c)
      | _ \<Rightarrow> None)"

definition string_field :: "string \<Rightarrow> json \<Rightarrow> string option" where
  "string_field key result = (case get_prop key result of Some (JStr s) \<Rightarrow> Some s | _ \<Rightarrow> None)"

definition precedence_spec :: "json option \<Rightarrow> string option" where
  "precedence_spec result =
     (case result of
        Some (JObj fs) \<Rightarrow>
          (case content_text (JObj fs) of
             Some t \<Rightarrow> Some t
           | None \<Rightarrow>
               (case string_field ''toolResult'' (JObj fs) of
                  Some t \<Rightarrow> Some t
                | None \<Rightarrow> string_field ''message'' (JObj fs)))
      | _ \<Rightarrow> None)"

text \<open>
  \<open>createCallTool\<close>: \<open>callTool\<close> is the remote call, \<open>Inl\<close> the value it throws.
  \<open>onError\<close> receives the extracted description; the call returns what \<open>onError\<close>
  returns, or the success payload.
\<close>

datatype 'r call_outcome = OnError 'r | Payload json

definition createCallTool ::
  "string \<Rightarrow> (string \<Rightarrow> json \<Rightarrow> json + json) \<Rightarrow> (string option \<Rightarrow> 'r) \<Rightarrow> json \<Rightarrow> 'r call_outcome" where
  "createCallTool nm callTool onError args =
     (case callTool nm args of
        Inl err \<Rightarrow> OnError (onError (getErrorDescriptionFromToolCall (Some err)))
      | Inr result \<Rightarrow>
          if truthy (get_prop ''isError'' result) then
            OnError (onError (getErrorDescriptionFromToolCall (Some result)))
          else (case get_prop ''toolResult'' result of
                  Some toolResult \<Rightarrow> Payload toolResult
                | None \<Rightarrow>
                    (case get_prop ''content'' result of
                       Some content \<Rightarrow> Payload content
                     | None \<Rightarrow> Payload result)))"

section \<open>Connecting: \<open>connectMcpClient\<close>\<close>

text \<open>
  \<open>connectMcpClient\<close> returns a \<open>Result\<close> on every path: the whole body is inside
  \<open>try\<close>, and the \<open>catch\<close> returns a \<open>connection\<close> error. The network is touched by
  constructing the \<open>SSEClientTransport\<close> for the parsed endpoint and by
  \<open>client.connect(transport)\<close>; both are recorded as events. \<open>newURL\<close> is the URL
  parser, \<open>connect\<close> the handshake (\<open>Some err\<close> when it rejects). The two
  constructors only build objects and are taken not to throw; the copy of the function
  that logs debug output wraps the transport's callbacks and behaves the same.
\<close>

datatype ConnectMcpClientError = invalid_url error | connection error

datatype 'u net_event =
    NewSSEClientTransport 'u "(string \<times> string) list option"
  | ClientConnect 'u

record 'u Client =
  client_name :: string
  client_version :: int
  transport_url :: 'u

definition connectMcpClient ::
  "(string \<Rightarrow> error + 'u) \<Rightarrow> ('u \<Rightarrow> error option) \<Rightarrow> (string \<times> string) list option \<Rightarrow>
   string \<Rightarrow> string \<Rightarrow> int \<Rightarrow> (ConnectMcpClientError + 'u Client) \<times> 'u net_event list" where
  "connectMcpClient newURL connect headers sseEndpoint nm version =
     (case normalizeAndValidateUrl newURL sseEndpoint of
        Inl err \<Rightarrow> (Inl (invalid_url err), [])
      | Inr endpoint \<Rightarrow>
          (case connect endpoint of
             Some err \<Rightarrow>
               (Inl (connection err), [NewSSEClientTransport endpoint headers, ClientConnect endpoint])
           | None \<Rightarrow>
               (Inr \<lparr>client_name = nm, client_version = version, transport_url = endpoint\<rparr>,
                [NewSSEClientTransport endpoint headers, ClientConnect endpoint])))"

section \<open>Schema adaptation: \<open>parseRef\<close> and \<open>mcpToolToDynamicTool\<close>\<close>

text \<open>
  Zod validators as far as the code builds or inspects them. \<open>z.lazy(getter)\<close> keeps
  the getter and calls it when the validator is used. \<open>typeName\<close> is
  \<open>_def.typeName\<close>; \<open>accepts\<close> is whether \<open>parse\<close> succeeds.
\<close>

datatype zod =
    ZodAny
  | ZodNever
  | ZodString
  | ZodNumber
  | ZodBoolean
  | ZodLazy "unit \<Rightarrow> zod"

primrec typeName :: "zod \<Rightarrow> string" where
  "typeName ZodAny = ''ZodAny''"
| "typeName ZodNever = ''ZodNever''"
| "typeName ZodString = ''ZodString''"
| "typeName ZodNumber = ''ZodNumber''"
| "typeName ZodBoolean = ''ZodBoolean''"
| "typeName (ZodLazy getter) = ''ZodLazy''"

primrec accepts :: "zod \<Rightarrow> json \<Rightarrow> bool" where
  "accepts ZodAny = (\<lambda>v. True)"
| "accepts ZodNever = (\<lambda>v. False)"
| "accepts ZodString = (\<lambda>v. case v of JStr s \<Rightarrow> True | _ \<Rightarrow> False)"
| "accepts ZodNumber = (\<lambda>v. case v of JNum n \<Rightarrow> True | _ \<Rightarrow> False)"
| "accepts ZodBoolean = (\<lambda>v. case v of JBool b \<Rightarrow> True | _ \<Rightarrow> False)"
| "accepts (ZodLazy getter) = (\<lambda>v. accepts (getter ()) v)"

text \<open>
  \<open>parseRef\<close>. \<open>ref\<close> is \<open>jsonSchema.$ref\<close> (a string by the parameter's type) and
  \<open>path\<close> is \<open>refs.path\<close>. For \<open>"#"\<close> the getter looks up the root schema and strips
  its \<open>$ref\<close>, and then returns \<open>z.any()\<close> without using either.
\<close>

record Refs =
  path :: "json list"

fun omit_key :: "string \<Rightarrow> json \<Rightarrow> json" where
  "omit_key key (JObj fs) = JObj (filter (\<lambda>kv. fst kv \<noteq> key) fs)"
| "omit_key key v = v"

definition parseRef :: "string \<Rightarrow> json \<Rightarrow> Refs \<Rightarrow> error + zod" where
  "parseRef ref jsonSchema refs =
     (if ref = ''#'' then
        Inr (ZodLazy (\<lambda>u.
          let rootSchema = (case path refs of
                              r # rest \<Rightarrow> if truthy (Some r) then r else jsonSchema
                            | [] \<Rightarrow> jsonSchema);
              schemaWithoutRef = omit_key ''$ref'' rootSchema
          in ZodAny))
      else Inl (Error (''Unsupported $ref: '' @ ref @
                  ''. Only self-references ($ref: '' @ [CHR 0x22] @ ''#'' @ [CHR 0x22] @
                  '') are currently supported.'')))"

text \<open>
  The \<open>type\<close> keyword of JSON Schema, to say what a root schema demands of a value.
\<close>

fun has_json_type :: "string \<Rightarrow> json \<Rightarrow> bool" where
  "has_json_type t JNull = (t = ''null'')"
| "has_json_type t (JBool b) = (t = ''boolean'')"
| "has_json_type t (JNum n) = (t = ''number'' \<or> t = ''integer'')"
| "has_json_type t (JStr s) = (t = ''string'')"
| "has_json_type t (JArr xs) = (t = ''array'')"
| "has_json_type t (JObj fs) = (t = ''object'')"

definition type_keyword_holds :: "json \<Rightarrow> json \<Rightarrow> bool" where
  "type_keyword_holds schema v =
     (case get_prop ''type'' schema of Some (JStr t) \<Rightarrow> has_json_type t v | _ \<Rightarrow> True)"

text \<open>
  \<open>Object.keys(v).length\<close> for a value that is not \<open>null\<close> or \<open>undefined\<close>: the own
  enumerable keys of an object, the indices of an array or string, none for a boolean or
  a number.
\<close>

fun keys_length :: "json \<Rightarrow> nat" where
  "keys_length (JObj fs) = length (remdups (map fst fs))"
| "keys_length (JArr xs) = length xs"
| "keys_length (JStr s) = length s"
| "keys_length _ = 0"

text \<open>
  \<open>isTrivialOriginalSchema\<close>: \<open>!inputSchema || Object.keys(inputSchema).length === 0 ||
  (typeof inputSchema === 'boolean' && inputSchema === true)\<close>.
\<close>

definition isTrivialOriginalSchema :: "json option \<Rightarrow> bool" where
  "isTrivialOriginalSchema s \<longleftrightarrow>
     \<not> truthy s \<or> (case s of Some v \<Rightarrow> keys_length v = 0 | None \<Rightarrow> False) \<or> s = Some (JBool True)"

record 'f DynamicStructuredTool =
  tool_name :: string
  tool_description :: string
  schema :: zod
  func :: 'f
  isFromToolkit :: bool

text \<open>
  \<open>mcpToolToDynamicTool\<close>. \<open>convertJsonSchemaToZod\<close> and \<open>JSON.stringify\<close> are
  parameters. The body of the \<open>try\<close> is \<open>convertChecked\<close>: the conversion, then the
  check that throws \<open>UnsupportedSchemaError\<close> for an accept-anything validator of a
  non-trivial schema. The \<open>catch\<close> rethrows an \<open>UnsupportedSchemaError\<close> as a
  \<open>NodeOperationError\<close> and any other error as it is. Both copies of the function agree on
  every validator that has a \<open>_def\<close>.
\<close>

definition convertChecked ::
  "(json option \<Rightarrow> error + zod) \<Rightarrow> (json option \<Rightarrow> string) \<Rightarrow> McpTool \<Rightarrow> error + zod" where
  "convertChecked convertJsonSchemaToZod stringify tool =
     (case convertJsonSchemaToZod (inputSchema tool) of
        Inl err \<Rightarrow> Inl err
      | Inr zodSchema \<Rightarrow>
          (let isActuallyAny = (typeName zodSchema = ''ZodAny'')
           in if isActuallyAny \<and> \<not> isTrivialOriginalSchema (inputSchema tool) then
                Inl (UnsupportedSchemaError
                  (''Schema for tool '' @ [CHR 0x22] @ name tool @ [CHR 0x22] @
                   '' was converted to z.any(), indicating an unsupported feature (e.g., 'default' values) or an empty schema that couldn't be processed into a stricter type. Original schema: '' @
                   stringify (inputSchema tool)))
              else Inr zodSchema))"

definition mcpToolToDynamicTool ::
  "(json option \<Rightarrow> error + zod) \<Rightarrow> (json option \<Rightarrow> string) \<Rightarrow> McpTool \<Rightarrow> 'f \<Rightarrow>
   error + 'f DynamicStructuredTool" where
  "mcpToolToDynamicTool convertJsonSchemaToZod stringify tool onCallTool =
     (case convertChecked convertJsonSchemaToZod stringify tool of
        Inl err \<Rightarrow>
          if is_UnsupportedSchemaError err then
            Inl (NodeOperationError
              (''Failed to prepare tool '' @ [CHR 0x22] @ name tool @ [CHR 0x22] @
               '': Schema conversion error. '' @ message err @ ''. Input schema: '' @
               stringify (inputSchema tool)))
          else Inl err
      | Inr zodSchema \<Rightarrow>
          Inr \<lparr>tool_name = name tool,
               tool_description = (case description tool of Some d \<Rightarrow> d | None \<Rightarrow> []),
               schema = zodSchema,
               func = onCallTool,
               isFromToolkit = True\<rparr>)"

text \<open>
  Modelled from the spec: the Toolkit Builder. The code that maps
  \<open>mcpToolToDynamicTool\<close> over the catalogue (the MCP client node's \<open>supplyData\<close>) is
  not among the sources; section 4.4 of the specification says that it calls the schema
  adapter for each capability, drops a capability whose schema is unsupported while
  keeping the error for reporting, and returns the possibly empty sequence of the others.
  \<open>mcpToolToDynamicTool\<close> reports an unsupported schema as a \<open>NodeOperationError\<close>;
  any other error is not covered by that rule and fails the build.
\<close>

fun buildToolkit ::
  "(json option \<Rightarrow> error + zod) \<Rightarrow> (json option \<Rightarrow> string) \<Rightarrow> 'f \<Rightarrow> McpTool list \<Rightarrow>
   error + ('f DynamicStructuredTool list \<times> (string \<times> error) list)" where
  "buildToolkit conv stringify onCallTool [] = Inr ([], [])"
| "buildToolkit conv stringify onCallTool (t # ts) =
     (case mcpToolToDynamicTool conv stringify t onCallTool of
        Inl (NodeOperationError m) \<Rightarrow>
          (case buildToolkit conv stringify onCallTool ts of
             Inl err \<Rightarrow> Inl err
           | Inr (built, dropped) \<Rightarrow> Inr (built, (name t, NodeOperationError m) # dropped))
      | Inl err \<Rightarrow> Inl err
      | Inr tool \<Rightarrow>
          (case buildToolkit conv stringify onCallTool ts of
             Inl err \<Rightarrow> Inl err
           | Inr (built, dropped) \<Rightarrow> Inr (tool # built, dropped)))"

section \<open>The agent: \<open>toolsAgentExecute\<close>\<close>

text \<open>
  The collaborators of \<open>toolsAgentExecute\<close> are fields of the execution context: what
  each awaited call resolves to (\<open>Inr\<close>) or rejects with (\<open>Inl\<close>). \<open>getTools\<close> itself
  is not among the sources; its outcome and the provider keys whose factory one call of it
  invokes (\<open>getToolsOpens\<close>, in order) are fields as well. A field of the \<open>getTools\<close>
  result is an array or some other value (\<open>NotArray\<close>, which holds a value that is not an
  array). A close function has the key of the provider it closes and, when it rejects,
  the value it rejects with (\<open>Some None\<close> is a rejection with \<open>undefined\<close>).
  \<open>runItem tools itemIndex\<close> is the asynchronous body run for one item with the tools
  array: prompt, agent, executor and \<open>executor.invoke\<close>, cancellation included; it gives
  the settled result and the tools the executor invoked, in order. \<open>stringify\<close> is
  \<open>JSON.stringify\<close> and \<open>stringOf\<close> the string conversion of a template literal for
  numbers, arrays and objects. The value \<open>getTools\<close> resolves with is taken to be an
  object. \<open>batchSize\<close> is a natural number; the \<open>sleep\<close> between
  batches and the debug and info log calls change neither the outcome nor the events and
  are left out.
\<close>

type_synonym agent_tool = string

datatype 'a js_array = NotArray "json option" | IsArray "'a list"

record closer =
  closer_id :: nat
  close_rejects :: "json option option"

record ToolsResult =
  agent_tools :: "agent_tool js_array"
  closeFunctions :: "closer js_array"

record INodeExecutionData =
  json_data :: json
  pairedItem :: nat

record exec_ctx =
  inputData :: "json list"
  getOptionalOutputParser :: "error + bool"
  getTools :: "error + ToolsResult"
  getToolsOpens :: "nat list"
  batchSize :: nat
  delayBetweenBatches :: nat
  getOptionalMemory :: "error + bool"
  getChatModel :: "error + unit"
  runItem :: "agent_tool list \<Rightarrow> nat \<Rightarrow> (error + json) \<times> agent_tool list"
  continueOnFail :: bool
  jsonParse :: "json option \<Rightarrow> error + json"
  stringify :: "json \<Rightarrow> string"
  stringOf :: "json \<Rightarrow> string"

text \<open>
  What an execution does to the tool providers, in order: the call of \<open>getTools\<close>, the
  factory invocation for a provider key that this call makes, the start of an item with
  the tools array it is given, the invocation of a tool within an item, the call of a
  close function, and the log entry for a close function that rejected.
\<close>

datatype event =
    GetTools
  | Open nat
  | ItemStart nat "agent_tool list"
  | ToolCall nat agent_tool
  | Close nat
  | LogCloseError string

text \<open>\<open>typeof v\<close>, and \<open>${v}\<close> and \<open>${JSON.stringify(v)}\<close> inside a template literal.\<close>

fun typeof_js :: "json option \<Rightarrow> string" where
  "typeof_js None = ''undefined''"
| "typeof_js (Some JNull) = ''object''"
| "typeof_js (Some (JBool b)) = ''boolean''"
| "typeof_js (Some (JNum n)) = ''number''"
| "typeof_js (Some (JStr s)) = ''string''"
| "typeof_js (Some (JArr xs)) = ''object''"
| "typeof_js (Some (JObj fs)) = ''object''"

fun template_string :: "(json \<Rightarrow> string) \<Rightarrow> json option \<Rightarrow> string" where
  "template_string other None = ''undefined''"
| "template_string other (Some JNull) = ''null''"
| "template_string other (Some (JBool b)) = (if b then ''true'' else ''false'')"
| "template_string other (Some (JStr s)) = s"
| "template_string other (Some v) = other v"

definition template_json :: "(json \<Rightarrow> string) \<Rightarrow> json option \<Rightarrow> string" where
  "template_json str v = (case v of None \<Rightarrow> ''undefined'' | Some j \<Rightarrow> str j)"

text \<open>\<open>response.output = parsedOutput?.output ?? parsedOutput\<close>\<close>

fun set_prop :: "string \<Rightarrow> json \<Rightarrow> json \<Rightarrow> json" where
  "set_prop key v (JObj fs) = JObj (AList.update key v fs)"
| "set_prop key v w = w"

definition parsedOutputOf :: "json \<Rightarrow> json" where
  "parsedOutputOf parsedOutput =
     (case get_prop ''output'' parsedOutput of
        None \<Rightarrow> parsedOutput
      | Some out \<Rightarrow> if out = JNull then parsedOutput else out)"

definition omitInternal :: "json \<Rightarrow> json" where
  "omitInternal response =
     (case response of
        JObj fs \<Rightarrow>
          JObj (filter (\<lambda>kv. fst kv \<notin> set [''system_message'', ''formatting_instructions'',
                                           ''input'', ''chat_history'', ''agent_scratchpad'']) fs)
      | _ \<Rightarrow> JObj [])"

text \<open>
  The \<open>forEach\<close> over the settled results of one batch, from item index \<open>itemIndex\<close> on.
  A rejected item is reported in the output when \<open>continueOnFail\<close> holds and otherwise
  throws; \<open>jsonParse\<close> may throw as well.
\<close>

fun processResults ::
  "exec_ctx \<Rightarrow> bool \<Rightarrow> nat \<Rightarrow> (error + json) list \<Rightarrow> INodeExecutionData list \<Rightarrow>
   error + INodeExecutionData list" where
  "processResults ctx parseOutput itemIndex [] returnData = Inr returnData"
| "processResults ctx parseOutput itemIndex (result # results) returnData =
     (case result of
        Inl err \<Rightarrow>
          if continueOnFail ctx then
            processResults ctx parseOutput (Suc itemIndex) results
              (returnData @ [\<lparr>json_data = JObj [(''error'', JStr (message err))],
                              pairedItem = itemIndex\<rparr>])
          else Inl (NodeOperationError (message err))
      | Inr response \<Rightarrow>
          (case (if parseOutput then
                   (case jsonParse ctx (get_prop ''output'' response) of
                      Inl err \<Rightarrow> Inl err
                    | Inr parsedOutput \<Rightarrow>
                        Inr (set_prop ''output'' (parsedOutputOf parsedOutput) response))
                 else Inr response) of
             Inl err \<Rightarrow> Inl err
           | Inr response' \<Rightarrow>
               processResults ctx parseOutput (Suc itemIndex) results
                 (returnData @ [\<lparr>json_data = omitInternal response', pairedItem = itemIndex\<rparr>])))"

text \<open>
  The events of one item: it starts with the tools array, then the executor invokes tools.
  The items of a batch run concurrently; their events are listed item by item.
\<close>

definition itemEvents :: "exec_ctx \<Rightarrow> agent_tool list \<Rightarrow> nat \<Rightarrow> event list" where
  "itemEvents ctx agentTools itemIndex =
     ItemStart itemIndex agentTools #
     map (ToolCall itemIndex) (snd (runItem ctx agentTools itemIndex))"

text \<open>
  The batch loop \<open>for (let i = 0; i < items.length; i += batchSize)\<close>. With
  \<open>batchSize = 0\<close> and an item left, \<open>i\<close> never advances and every batch is empty: the
  loop does not return, which is the result \<open>None\<close>. The second component lists the
  events of the items.
\<close>

function batchLoop ::
  "exec_ctx \<Rightarrow> agent_tool list \<Rightarrow> bool \<Rightarrow> nat \<Rightarrow> INodeExecutionData list \<Rightarrow>
   (error + INodeExecutionData list) option \<times> event list" where
  "batchLoop ctx agentTools parseOutput i returnData =
     (if i < length (inputData ctx) then
        (if batchSize ctx = 0 then (None, [])
         else
           (let batch = take (batchSize ctx) (drop i (inputData ctx));
                started = concat (map (\<lambda>k. itemEvents ctx agentTools (i + k)) [0..<length batch]);
                batchResults = map (\<lambda>k. fst (runItem ctx agentTools (i + k))) [0..<length batch]
            in case processResults ctx parseOutput i batchResults returnData of
                 Inl err \<Rightarrow> (Some (Inl err), started)
               | Inr returnData' \<Rightarrow>
                   (case batchLoop ctx agentTools parseOutput (i + batchSize ctx) returnData' of
                      (r, evs) \<Rightarrow> (r, started @ evs))))
      else (Some (Inr returnData), []))"
  by pat_completeness auto
termination
  by (relation "measure (\<lambda>(ctx, agentTools, parseOutput, i, returnData). length (inputData ctx) - i)")
     auto

declare batchLoop.simps [simp del]

text \<open>
  The \<open>finally\<close> block. Every close function is called in turn; a rejection is caught
  and logged with \<open>e.message\<close>. Reading \<open>e.message\<close> throws a \<open>TypeError\<close> when the
  close function rejected with \<open>undefined\<close> or \<open>null\<close>: that error leaves the
  \<open>finally\<close> block, and the remaining close functions are not called. The first
  component is the error that leaves the block, if any.
\<close>

fun runCloseFunctions :: "(json \<Rightarrow> string) \<Rightarrow> closer list \<Rightarrow> error option \<times> event list" where
  "runCloseFunctions str [] = (None, [])"
| "runCloseFunctions str (c # cs) =
     (case close_rejects c of
        None \<Rightarrow>
          (case runCloseFunctions str cs of (r, evs) \<Rightarrow> (r, Close (closer_id c) # evs))
      | Some None \<Rightarrow>
          (Some (TypeError ''Cannot read properties of undefined (reading 'message')''),
           [Close (closer_id c)])
      | Some (Some e) \<Rightarrow>
          if e = JNull then
            (Some (TypeError ''Cannot read properties of null (reading 'message')''),
             [Close (closer_id c)])
          else
            (case runCloseFunctions str cs of
               (r, evs) \<Rightarrow>
                 (r, Close (closer_id c) #
                     LogCloseError (''Error closing toolkit connection: '' @
                       template_string str (get_prop ''message'' e)) # evs)))"

text \<open>
  \<open>toolsAgentExecute\<close>: the outcome (\<open>None\<close> when the loop does not return, \<open>Inl\<close> the
  error thrown, \<open>Inr\<close> the returned data) and the events. The \<open>try\<close> \<dots> \<open>finally\<close>
  encloses the batch loop only; everything before it throws past the \<open>finally\<close> block.
  An error that leaves the \<open>finally\<close> block replaces the outcome of the \<open>try\<close> block.
\<close>

definition toolsAgentExecute ::
  "exec_ctx \<Rightarrow> (error + INodeExecutionData list list) option \<times> event list" where
  "toolsAgentExecute ctx =
     (case getOptionalOutputParser ctx of
        Inl err \<Rightarrow> (Some (Inl err), [])
      | Inr outputParser \<Rightarrow>
     (let called = GetTools # map Open (getToolsOpens ctx) in
     (case getTools ctx of
        Inl err \<Rightarrow> (Some (Inl err), called)
      | Inr toolsResult \<Rightarrow>
     (case agent_tools toolsResult of
        NotArray v \<Rightarrow>
          (Some (Inl (NodeOperationError
             (''Expected tools to be an array, but got '' @ typeof_js v @
              ''. Tools value: '' @ template_json (stringify ctx) v))), called)
      | IsArray agentTools \<Rightarrow>
     (case closeFunctions toolsResult of
        NotArray v \<Rightarrow>
          (Some (Inl (NodeOperationError
             (''Expected closeFunctions to be an array, but got '' @ typeof_js v @
              ''. Value: '' @ template_json (stringify ctx) v))), called)
      | IsArray closeFns \<Rightarrow>
     (case getOptionalMemory ctx of
        Inl err \<Rightarrow> (Some (Inl err), called)
      | Inr memory \<Rightarrow>
     (case getChatModel ctx of
        Inl err \<Rightarrow> (Some (Inl err), called)
      | Inr model \<Rightarrow>
     (case batchLoop ctx agentTools (memory \<and> outputParser) 0 [] of
        (None, evs) \<Rightarrow> (None, called @ evs)
      | (Some r, evs) \<Rightarrow>
          (case runCloseFunctions (stringOf ctx) closeFns of
             (Some closeErr, closeEvs) \<Rightarrow> (Some (Inl closeErr), called @ evs @ closeEvs)
           | (None, closeEvs) \<Rightarrow>
               (case r of
                  Inl err \<Rightarrow> (Some (Inl err), called @ evs @ closeEvs)
                | Inr returnData \<Rightarrow> (Some (Inr [returnData]), called @ evs @ closeEvs)))))))))))"

text \<open>
  The phase an event belongs to: acquiring the tools, running the items, closing. And the
  items an event list starts, with the tools array each is given.
\<close>

fun phase :: "event \<Rightarrow> nat" where
  "phase GetTools = 0"
| "phase (Open key) = 0"
| "phase (ItemStart k ts) = 1"
| "phase (ToolCall k t) = 1"
| "phase (Close c) = 2"
| "phase (LogCloseError m) = 2"


text \<open>
  What the caller of \<open>mcpToolToDynamicTool\<close> is told about a refused tool, spelled out
  from the two message templates: the message of the \<open>UnsupportedSchemaError\<close> for an
  accept-anything validator, and the \<open>NodeOperationError\<close> that wraps the message
  \<open>inner\<close> of an \<open>UnsupportedSchemaError\<close>.
\<close>

definition any_message :: "(json option \<Rightarrow> string) \<Rightarrow> McpTool \<Rightarrow> string" where
  "any_message str t =
     ''Schema for tool '' @ [CHR 0x22] @ name t @ [CHR 0x22] @
     '' was converted to z.any(), indicating an unsupported feature (e.g., 'default' values) or an empty schema that couldn't be processed into a stricter type. Original schema: '' @
     str (inputSchema t)"

definition reported_error :: "(json option \<Rightarrow> string) \<Rightarrow> McpTool \<Rightarrow> string \<Rightarrow> error" where
  "reported_error str t inner =
     NodeOperationError
       (''Failed to prepare tool '' @ [CHR 0x22] @ name t @ [CHR 0x22] @
        '': Schema conversion error. '' @ inner @ ''. Input schema: '' @ str (inputSchema t))"

text \<open>
  The schema adapter fails on the catalogue, if at all, with \<open>UnsupportedSchemaError\<close>.
\<close>

definition fails_only_unsupported :: "(json option \<Rightarrow> error + zod) \<Rightarrow> McpTool list \<Rightarrow> bool" where
  "fails_only_unsupported conv catalogue =
     list_all (\<lambda>t. case conv (inputSchema t) of
                       Inl err \<Rightarrow> is_UnsupportedSchemaError err
                     | Inr z \<Rightarrow> True) catalogue"

section \<open>Example inputs\<close>

text \<open>Servers and results used to evaluate the model at concrete inputs.\<close>

definition mk_tool :: "string \<Rightarrow> McpTool" where
  "mk_tool n = \<lparr>name = n, description = None, inputSchema = None\<rparr>"

definition three_page_server :: listTools where
  "three_page_server c =
     (if c = None then Inr \<lparr>tools = Some [mk_tool ''a''], nextCursor = Some ''c1''\<rparr>
      else if c = Some ''c1'' then Inr \<lparr>tools = None, nextCursor = Some ''c2''\<rparr>
      else if c = Some ''c2'' then Inr \<lparr>tools = Some [mk_tool ''b'', mk_tool ''c''], nextCursor = None\<rparr>
      else Inl (Error ''unknown cursor''))"

definition broken_server :: listTools where
  "broken_server c =
     (if c = None then Inr \<lparr>tools = Some [mk_tool ''a''], nextCursor = Some ''c1''\<rparr>
      else Inl (Error ''request timed out''))"

definition empty_cursor_server :: listTools where
  "empty_cursor_server c =
     (if c = None then Inr \<lparr>tools = Some [mk_tool ''a''], nextCursor = Some ''''\<rparr>
      else Inr \<lparr>tools = Some [mk_tool ''b''], nextCursor = None\<rparr>)"

definition empty_content_result :: json where
  "empty_content_result = JObj [(''content'', JArr []), (''toolResult'', JStr ''boom'')]"


definition example_newURL :: "string \<Rightarrow> error + string" where
  "example_newURL s = (if s = ''https://'' then Inl (TypeError ''Invalid URL'') else Inr s)"

definition refusing_connect :: "string \<Rightarrow> error option" where
  "refusing_connect u = (if u = ''https://down.example/sse'' then Some (Error ''SSE error'') else None)"

definition any_converter :: "json option \<Rightarrow> error + zod" where
  "any_converter s = Inr ZodAny"

definition example_converter :: "json option \<Rightarrow> error + zod" where
  "example_converter s =
     (if s = Some (JObj [(''type'', JStr ''string'')]) then Inr ZodString
      else if s = None \<or> s = Some (JObj []) then Inr ZodAny
      else Inl (UnsupportedSchemaError
        ''Unsupported JSON schema type or structure encountered: string. No specific parser available.''))"

definition show_schema :: "json option \<Rightarrow> string" where
  "show_schema s = ''<schema>''"

definition default_tool :: McpTool where
  "default_tool = \<lparr>name = ''lookup'', description = None,
     inputSchema = Some (JObj [(''type'', JStr ''string''), (''default'', JStr ''x'')])\<rparr>"

definition string_tool :: McpTool where
  "string_tool = \<lparr>name = ''echo'', description = Some ''Echo'',
     inputSchema = Some (JObj [(''type'', JStr ''string'')])\<rparr>"

definition empty_schema_tool :: McpTool where
  "empty_schema_tool = \<lparr>name = ''ping'', description = None, inputSchema = Some (JObj [])\<rparr>"

definition list_schema :: json where
  "list_schema = JObj [(''type'', JStr ''object''),
     (''properties'', JObj [(''value'', JObj [(''type'', JStr ''string'')]),
                           (''next'', JObj [(''$ref'', JStr ''#'')])])]"

definition false_schema_tool :: McpTool where
  "false_schema_tool = \<lparr>name = ''never'', description = None, inputSchema = Some (JBool False)\<rparr>"

definition self_reference_tool :: McpTool where
  "self_reference_tool =
     \<lparr>name = ''tree'', description = None, inputSchema = Some (JObj [(''$ref'', JStr ''#'')])\<rparr>"

definition self_reference_converter :: "json option \<Rightarrow> error + zod" where
  "self_reference_converter s = parseRef ''#'' (JObj [(''$ref'', JStr ''#'')]) \<lparr>path = []\<rparr>"

definition example_ctx :: exec_ctx where
  "example_ctx =
     \<lparr>inputData = [JNull, JNull, JNull],
      getOptionalOutputParser = Inr False,
      getTools = Inr \<lparr>agent_tools = IsArray [''search''],
                         closeFunctions = IsArray
                           [\<lparr>closer_id = 0,
                             close_rejects = Some (Some (JObj [(''message'', JStr ''socket hang up'')]))\<rparr>,
                            \<lparr>closer_id = 1, close_rejects = None\<rparr>]\<rparr>,
      getToolsOpens = [0, 1],
      batchSize = 2,
      delayBetweenBatches = 0,
      getOptionalMemory = Inr False,
      getChatModel = Inr (),
      runItem = (\<lambda>ts k. if k = 1 then (Inl (Error ''cancelled''), [''search''])
                        else (Inr (JObj [(''output'', JStr ''done''), (''input'', JStr ''hi'')]),
                              [''search'', ''search''])),
      continueOnFail = True,
      jsonParse = (\<lambda>v. Inl (Error ''not called'')),
      stringify = (\<lambda>v. ''<json>''),
      stringOf = (\<lambda>v. ''<value>'')\<rparr>"


definition leaking_ctx :: exec_ctx where
  "leaking_ctx =
     example_ctx\<lparr>getChatModel :=
       Inl (Error ''Tools Agent requires Chat Model which supports Tools calling'')\<rparr>"

definition malformed_ctx :: exec_ctx where
  "malformed_ctx =
     example_ctx\<lparr>getTools :=
       Inr \<lparr>agent_tools = NotArray None,
            closeFunctions = IsArray [\<lparr>closer_id = 0, close_rejects = None\<rparr>]\<rparr>,
       getToolsOpens := [0]\<rparr>"

definition undefined_rejection_ctx :: exec_ctx where
  "undefined_rejection_ctx =
     example_ctx\<lparr>getTools :=
       Inr \<lparr>agent_tools = IsArray [''search''],
            closeFunctions = IsArray [\<lparr>closer_id = 0, close_rejects = Some None\<rparr>,
                                      \<lparr>closer_id = 1, close_rejects = None\<rparr>]\<rparr>\<rparr>"

section \<open>Verified properties\<close>

subsection \<open>Address normalisation\<close>

lemma lower_letter:
  "lower c = CHR ''h'' \<longleftrightarrow> ci CHR ''h'' CHR ''H'' c"
  "lower c = CHR ''t'' \<longleftrightarrow> ci CHR ''t'' CHR ''T'' c"
  "lower c = CHR ''p'' \<longleftrightarrow> ci CHR ''p'' CHR ''P'' c"
  "lower c = CHR ''s'' \<longleftrightarrow> ci CHR ''s'' CHR ''S'' c"
  "lower c = CHR '':'' \<longleftrightarrow> c = CHR '':''"
  "lower c = CHR ''/'' \<longleftrightarrow> c = CHR ''/''"
  by (simp_all add: lower_def ci_def)

lemma starts_with_take: "starts_with p s \<longleftrightarrow> take (length p) s = p"
  by (induction p s rule: starts_with.induct) auto

lemma take_eq_Cons: "take (Suc n) xs = y # ys \<longleftrightarrow> (\<exists>zs. xs = y # zs \<and> take n zs = ys)"
  by (cases xs) auto

lemma test_http_scheme_iff: "test_http_scheme input \<longleftrightarrow> begins_with_scheme input"
proof (cases input rule: test_http_scheme.cases)
  case (1 h t1 t2 p rest)
  have a: "starts_with ''://'' rest \<longleftrightarrow> map lower (take 3 rest) = ''://''"
    by (auto simp add: starts_with_take numeral_3_eq_3 map_eq_Cons_conv take_eq_Cons lower_letter)
  have b: "(case rest of [] \<Rightarrow> False | s # r \<Rightarrow> ci CHR ''s'' CHR ''S'' s \<and> starts_with ''://'' r)
           \<longleftrightarrow> map lower (take 4 rest) = ''s://''"
    by (cases rest) (auto simp add: starts_with_take numeral_3_eq_3 map_eq_Cons_conv take_eq_Cons lower_letter)
  have t7: "take 7 input = h # t1 # t2 # p # take 3 rest"
    and t8: "take 8 input = h # t1 # t2 # p # take 4 rest"
    using 1 by (simp_all add: take_Cons')
  show ?thesis
    unfolding begins_with_scheme_def t7 t8 using a b 1
    by (auto simp add: lower_letter)
qed (simp_all add: begins_with_scheme_def)

text \<open>
  Claim C10. Address normalisation never rewrites an explicit scheme: an input that begins
  with \<open>http://\<close> or \<open>https://\<close> in any letter case is handed to the URL parser
  unchanged (so an \<open>http://\<close> address stays insecure), and \<open>https://\<close> is prefixed
  exactly when neither scheme is present.
\<close>

theorem normalize_keeps_explicit_scheme:
  "(begins_with_scheme input \<longrightarrow>
      withProtocol input = input \<and> normalizeAndValidateUrl newURL input = newURL input) \<and>
   (\<not> begins_with_scheme input \<longrightarrow>
      withProtocol input = ''https://'' @ input \<and>
      normalizeAndValidateUrl newURL input = newURL (''https://'' @ input)) \<and>
   withProtocol (''http://'' @ host) = ''http://'' @ host \<and>
   normalizeAndValidateUrl newURL (''http://'' @ host) = newURL (''http://'' @ host)"
  by (auto simp: withProtocol_def normalizeAndValidateUrl_def safeCreateUrl_def
      test_http_scheme_iff [symmetric] ci_def Let_def split: sum.splits)

theorem normalize_keeps_explicit_scheme_witness:
  "begins_with_scheme ''HtTp://mcp.example/sse'' \<and>
   withProtocol ''HtTp://mcp.example/sse'' = ''HtTp://mcp.example/sse'' \<and>
   normalizeAndValidateUrl (\<lambda>s. if s = ''HtTp://mcp.example/sse'' then Inr (1::nat) else Inl (0::nat))
     ''HtTp://mcp.example/sse'' = Inr 1 \<and>
   \<not> begins_with_scheme ''mcp.example/sse'' \<and>
   withProtocol ''mcp.example/sse'' = ''https://mcp.example/sse''"
proof -
  have h: "begins_with_scheme ''HtTp://mcp.example/sse''"
    by (simp add: begins_with_scheme_def lower_def)
  have n: "\<not> begins_with_scheme ''mcp.example/sse''"
    by (simp add: begins_with_scheme_def lower_def)
  show ?thesis
    using h n
      normalize_keeps_explicit_scheme [of "''HtTp://mcp.example/sse''"
        "\<lambda>s. if s = ''HtTp://mcp.example/sse'' then Inr (1::nat) else Inl (0::nat)" "''h''"]
      normalize_keeps_explicit_scheme [of "''mcp.example/sse''"
        "\<lambda>s. if s = ''HtTp://mcp.example/sse'' then Inr (1::nat) else Inl (0::nat)" "''h''"]
    by simp
qed

subsection \<open>Tool selection\<close>

text \<open>
  Claim C9. The selection filter is a function of mode, include list, exclude list and
  catalogue: \<open>selected\<close> with an absent or empty include list returns the catalogue;
  with a non-empty include list, the tools whose names are in it, in catalogue order;
  \<open>except\<close> removes the tools named in the exclude list; \<open>all\<close> and every other
  mode return the catalogue unchanged.
\<close>

theorem getSelectedTools_modes:
  "getSelectedTools ''selected'' None exc catalogue = catalogue \<and>
   getSelectedTools ''selected'' (Some []) exc catalogue = catalogue \<and>
   (inc \<noteq> [] \<longrightarrow>
      getSelectedTools ''selected'' (Some inc) exc catalogue = filter (\<lambda>t. name t \<in> set inc) catalogue) \<and>
   getSelectedTools ''except'' inc' (Some ex) catalogue = filter (\<lambda>t. name t \<notin> set ex) catalogue \<and>
   getSelectedTools ''except'' inc' None catalogue = catalogue \<and>
   (mode \<noteq> ''selected'' \<and> mode \<noteq> ''except'' \<longrightarrow> getSelectedTools mode inc' exc catalogue = catalogue)"
  by (simp add: getSelectedTools_def)

theorem getSelectedTools_modes_witness:
  "[''b''] \<noteq> [] \<and>
   getSelectedTools ''selected'' (Some [''b'']) None
     [\<lparr>name = ''a'', description = None, inputSchema = None\<rparr>,
      \<lparr>name = ''b'', description = None, inputSchema = None\<rparr>]
     = [\<lparr>name = ''b'', description = None, inputSchema = None\<rparr>] \<and>
   ''all'' \<noteq> ''selected'' \<and> ''all'' \<noteq> ''except'' \<and>
   getSelectedTools ''all'' (Some [''b'']) None
     [\<lparr>name = ''a'', description = None, inputSchema = None\<rparr>]
     = [\<lparr>name = ''a'', description = None, inputSchema = None\<rparr>]"
  using getSelectedTools_modes [of None
      "[\<lparr>name = ''a'', description = None, inputSchema = None\<rparr>,
        \<lparr>name = ''b'', description = None, inputSchema = None\<rparr>]" "[''b'']" "Some [''b'']" "[]" "''bogus''"]
    getSelectedTools_modes [of None
      "[\<lparr>name = ''a'', description = None, inputSchema = None\<rparr>]" "[''b'']" "Some [''b'']" "[]" "''all''"]
  by simp


subsection \<open>Capability listing\<close>

lemma getAllTools_followed:
  "followed_chain client c pages \<Longrightarrow>
   getAllTools client c = Some (Inr (concat (map currentTools pages)))"
proof (induction client c pages rule: followed_chain.induct)
  case (1 client c)
  then show ?case by simp
next
  case (2 client c p)
  then show ?case by (subst getAllTools.simps) simp
next
  case (3 client c p q ps)
  then show ?case by (subst getAllTools.simps) simp
qed

lemma getAllTools_failing:
  "failing_chain client c pages err \<Longrightarrow> getAllTools client c = Some (Inl err)"
proof (induction pages arbitrary: c)
  case Nil
  then show ?case by (subst getAllTools.simps) simp
next
  case (Cons p ps)
  then show ?case by (subst getAllTools.simps) simp
qed

lemma cursor_chain_followed:
  "cursor_chain client c pages \<Longrightarrow> Some [] \<notin> nextCursor ` set pages \<Longrightarrow>
   followed_chain client c pages"
  by (induction client c pages rule: cursor_chain.induct) (auto simp: hasNext_def)

text \<open>
  Claim C3 as stated fails for a chain that passes through an empty-string cursor: the
  server answers the first request with page \<open>[a]\<close> and \<open>nextCursor = ""\<close>, and the
  request at cursor \<open>""\<close> with page \<open>[b]\<close> and no cursor. The chain has two pages, but
  \<open>if (nextCursor)\<close> takes the empty string for no cursor and the listing is \<open>[a]\<close>.
\<close>

theorem getAllTools_empty_cursor_counterexample:
  "cursor_chain empty_cursor_server None
     [\<lparr>tools = Some [mk_tool ''a''], nextCursor = Some ''''\<rparr>,
      \<lparr>tools = Some [mk_tool ''b''], nextCursor = None\<rparr>] \<and>
   getAllTools empty_cursor_server None = Some (Inr [mk_tool ''a'']) \<and>
   getAllTools empty_cursor_server None \<noteq>
     Some (Inr (concat (map currentTools
       [\<lparr>tools = Some [mk_tool ''a''], nextCursor = Some ''''\<rparr>,
        \<lparr>tools = Some [mk_tool ''b''], nextCursor = None\<rparr>])))"
  by (simp add: getAllTools.simps [of _ None] empty_cursor_server_def hasNext_def currentTools_def)

text \<open>
  Claim C3, amended. For every cursor chain whose cursors are non-empty strings (the chain
  the code follows: it ends at the first page whose \<open>nextCursor\<close> is absent or empty),
  \<open>getAllTools\<close> returns the concatenation of the pages' tool arrays in chain order, a
  page whose \<open>tools\<close> field is missing or not an array contributing no entry; and if a
  request of the chain rejects, the whole listing rejects with that error and no partial
  list is returned.
\<close>

theorem getAllTools_concatenates_pages:
  "(cursor_chain client c pages \<and> Some [] \<notin> nextCursor ` set pages \<longrightarrow>
      getAllTools client c = Some (Inr (concat (map currentTools pages)))) \<and>
   (followed_chain client c pages \<longrightarrow>
      getAllTools client c = Some (Inr (concat (map currentTools pages)))) \<and>
   (failing_chain client c pages err \<longrightarrow> getAllTools client c = Some (Inl err)) \<and>
   (tools p = None \<longrightarrow> currentTools p = [])"
  using getAllTools_followed cursor_chain_followed getAllTools_failing
  by (auto simp: currentTools_def)

theorem getAllTools_concatenates_pages_witness:
  "cursor_chain three_page_server None
     [\<lparr>tools = Some [mk_tool ''a''], nextCursor = Some ''c1''\<rparr>,
      \<lparr>tools = None, nextCursor = Some ''c2''\<rparr>,
      \<lparr>tools = Some [mk_tool ''b'', mk_tool ''c''], nextCursor = None\<rparr>] \<and>
   followed_chain three_page_server None
     [\<lparr>tools = Some [mk_tool ''a''], nextCursor = Some ''c1''\<rparr>,
      \<lparr>tools = None, nextCursor = Some ''c2''\<rparr>,
      \<lparr>tools = Some [mk_tool ''b'', mk_tool ''c''], nextCursor = None\<rparr>] \<and>
   getAllTools three_page_server None = Some (Inr [mk_tool ''a'', mk_tool ''b'', mk_tool ''c'']) \<and>
   failing_chain broken_server None
     [\<lparr>tools = Some [mk_tool ''a''], nextCursor = Some ''c1''\<rparr>] (Error ''request timed out'') \<and>
   getAllTools broken_server None = Some (Inl (Error ''request timed out'')) \<and>
   currentTools \<lparr>tools = None, nextCursor = Some ''c2''\<rparr> = []"
proof -
  let ?pages = "[\<lparr>tools = Some [mk_tool ''a''], nextCursor = Some ''c1''\<rparr>,
      \<lparr>tools = None, nextCursor = Some ''c2''\<rparr>,
      \<lparr>tools = Some [mk_tool ''b'', mk_tool ''c''], nextCursor = None\<rparr>]"
  have c: "cursor_chain three_page_server None ?pages"
    by (simp add: three_page_server_def)
  have n: "Some [] \<notin> nextCursor ` set ?pages" by simp
  have f: "followed_chain three_page_server None ?pages"
    by (simp add: three_page_server_def hasNext_def)
  have b: "failing_chain broken_server None
     [\<lparr>tools = Some [mk_tool ''a''], nextCursor = Some ''c1''\<rparr>] (Error ''request timed out'')"
    by (simp add: broken_server_def hasNext_def)
  have t: "tools \<lparr>tools = None, nextCursor = Some ''c2''\<rparr> = None" by simp
  show ?thesis
    using c n f b t
      getAllTools_concatenates_pages [of three_page_server None ?pages
        "Error ''x''" "\<lparr>tools = None, nextCursor = Some ''c2''\<rparr>"]
      getAllTools_concatenates_pages [of broken_server None
        "[\<lparr>tools = Some [mk_tool ''a''], nextCursor = Some ''c1''\<rparr>]"
        "Error ''request timed out''" "\<lparr>tools = None, nextCursor = Some ''c2''\<rparr>"]
    by (simp add: currentTools_def)
qed


subsection \<open>Tool-call error descriptions\<close>

text \<open>
  Claim C7 as stated fails where a content array holds no textual element: for
  \<open>{content: [], toolResult: "boom"}\<close> the stated precedence falls through to
  \<open>toolResult\<close>, while the code returns from the content branch with \<open>undefined\<close>.
\<close>

theorem error_description_counterexample:
  "getErrorDescriptionFromToolCall (Some empty_content_result) = None \<and>
   precedence_spec (Some empty_content_result) = Some ''boom''"
  by (simp add: getErrorDescriptionFromToolCall_def precedence_spec_def empty_content_result_def
      content_text_def string_field_def)

text \<open>
  Claim C7, amended. The branch is chosen by shape. When \<open>content\<close> is an array, the
  description is the text of its first textual element, or none if it has no such
  element (no fall-through). Otherwise it is the \<open>toolResult\<close> string, else the
  \<open>message\<close> string, else none. Hence the code agrees with the stated precedence
  whenever \<open>content\<close> is not an array or holds a textual element, in particular
  when exactly one shape is present; a result that is not an object gives none.
\<close>

theorem error_description_precedence:
  "(get_prop ''content'' r = Some (JArr content) \<longrightarrow>
      getErrorDescriptionFromToolCall (Some r) = content_text r) \<and>
   ((\<forall>xs. get_prop ''content'' r \<noteq> Some (JArr xs)) \<longrightarrow>
      getErrorDescriptionFromToolCall (Some r) =
        (case string_field ''toolResult'' r of
           Some t \<Rightarrow> Some t
         | None \<Rightarrow> string_field ''message'' r)) \<and>
   (content_text r \<noteq> None \<or> (\<forall>xs. get_prop ''content'' r \<noteq> Some (JArr xs)) \<longrightarrow>
      getErrorDescriptionFromToolCall (Some r) = precedence_spec (Some r)) \<and>
   ((\<forall>fs. r \<noteq> JObj fs) \<longrightarrow> getErrorDescriptionFromToolCall (Some r) = None) \<and>
   getErrorDescriptionFromToolCall None = None"
  by (cases r)
     (auto simp: getErrorDescriptionFromToolCall_def precedence_spec_def content_text_def
        string_field_def split: option.splits json.splits)

theorem error_description_precedence_witness:
  "getErrorDescriptionFromToolCall
     (Some (JObj [(''content'', JArr [JObj [(''type'', JStr ''image'')],
                                     JObj [(''type'', JStr ''text''), (''text'', JStr ''bad input'')]]),
                  (''toolResult'', JStr ''ignored'')])) = Some ''bad input'' \<and>
   getErrorDescriptionFromToolCall (Some (JObj [(''toolResult'', JStr ''failed'')])) = Some ''failed'' \<and>
   getErrorDescriptionFromToolCall (Some (JObj [(''message'', JStr ''timeout'')])) = Some ''timeout'' \<and>
   getErrorDescriptionFromToolCall (Some (JStr ''oops'')) = None"
proof -
  let ?r1 = "JObj [(''content'', JArr [JObj [(''type'', JStr ''image'')],
                                     JObj [(''type'', JStr ''text''), (''text'', JStr ''bad input'')]]),
                  (''toolResult'', JStr ''ignored'')]"
  let ?c1 = "[JObj [(''type'', JStr ''image'')],
              JObj [(''type'', JStr ''text''), (''text'', JStr ''bad input'')]]"
  have a: "get_prop ''content'' ?r1 = Some (JArr ?c1)" by simp
  have b: "\<forall>xs. get_prop ''content'' (JObj [(''toolResult'', JStr ''failed'')]) \<noteq> Some (JArr xs)"
    by simp
  have c: "\<forall>xs. get_prop ''content'' (JObj [(''message'', JStr ''timeout'')]) \<noteq> Some (JArr xs)"
    by simp
  have d: "\<forall>fs. JStr ''oops'' \<noteq> JObj fs" by simp
  have e: "content_text ?r1 \<noteq> None" by (simp add: content_text_def)
  show ?thesis
    using a b c d e
      error_description_precedence [of ?r1 ?c1]
      error_description_precedence [of "JObj [(''toolResult'', JStr ''failed'')]" "[]"]
      error_description_precedence [of "JObj [(''message'', JStr ''timeout'')]" "[]"]
      error_description_precedence [of "JStr ''oops''" "[]"]
    by (simp add: content_text_def string_field_def precedence_spec_def)
qed

text \<open>
  \<open>createCallTool\<close> hands exactly this description to \<open>onError\<close>, for a call that
  throws as for a result flagged \<open>isError\<close>; any other result is a payload.
\<close>

lemma createCallTool_reports_description:
  "(callTool nm args = Inl err \<longrightarrow>
      createCallTool nm callTool onError args =
        OnError (onError (getErrorDescriptionFromToolCall (Some err)))) \<and>
   (callTool nm args = Inr result \<and> truthy (get_prop ''isError'' result) \<longrightarrow>
      createCallTool nm callTool onError args =
        OnError (onError (getErrorDescriptionFromToolCall (Some result)))) \<and>
   (callTool nm args = Inr result \<and> \<not> truthy (get_prop ''isError'' result) \<longrightarrow>
      (\<exists>v. createCallTool nm callTool onError args = Payload v))"
  by (auto simp: createCallTool_def split: option.splits)

subsection \<open>Connecting\<close>

text \<open>
  Claim C8. An address without an \<open>http://\<close> or \<open>https://\<close> scheme is prefixed with
  \<open>https://\<close> before it is validated. If the URL parser rejects the (possibly prefixed)
  address, \<open>connectMcpClient\<close> returns an \<open>invalid_url\<close> error and nothing touches the
  network: no transport is constructed and no connect is issued. Only for a valid address
  is the session opened, and a failed handshake is returned as a \<open>connection\<close> error.
\<close>

theorem connectMcpClient_address_handling:
  "(\<not> begins_with_scheme ep \<longrightarrow> withProtocol ep = ''https://'' @ ep) \<and>
   (newURL (withProtocol ep) = Inl err \<longrightarrow>
      connectMcpClient newURL connect hs ep nm v = (Inl (invalid_url err), [])) \<and>
   (newURL (withProtocol ep) = Inr u \<and> connect u = Some err \<longrightarrow>
      connectMcpClient newURL connect hs ep nm v =
        (Inl (connection err), [NewSSEClientTransport u hs, ClientConnect u])) \<and>
   (newURL (withProtocol ep) = Inr u \<and> connect u = None \<longrightarrow>
      connectMcpClient newURL connect hs ep nm v =
        (Inr \<lparr>client_name = nm, client_version = v, transport_url = u\<rparr>,
         [NewSSEClientTransport u hs, ClientConnect u])) \<and>
   (snd (connectMcpClient newURL connect hs ep nm v) \<noteq> [] \<longrightarrow>
      (\<exists>u'. newURL (withProtocol ep) = Inr u'))"
  by (auto simp: connectMcpClient_def normalizeAndValidateUrl_def safeCreateUrl_def Let_def
      withProtocol_def test_http_scheme_iff split: sum.splits option.splits)

theorem connectMcpClient_address_handling_witness:
  "\<not> begins_with_scheme [] \<and> withProtocol [] = ''https://'' \<and>
   example_newURL (withProtocol []) = Inl (TypeError ''Invalid URL'') \<and>
   connectMcpClient example_newURL refusing_connect None [] ''mcpClientTool'' 1 =
     (Inl (invalid_url (TypeError ''Invalid URL'')), []) \<and>
   example_newURL (withProtocol ''down.example/sse'') = Inr ''https://down.example/sse'' \<and>
   refusing_connect ''https://down.example/sse'' = Some (Error ''SSE error'') \<and>
   connectMcpClient example_newURL refusing_connect None ''down.example/sse'' ''mcpClientTool'' 1 =
     (Inl (connection (Error ''SSE error'')),
      [NewSSEClientTransport ''https://down.example/sse'' None, ClientConnect ''https://down.example/sse'']) \<and>
   example_newURL (withProtocol ''http://up.example/sse'') = Inr ''http://up.example/sse'' \<and>
   refusing_connect ''http://up.example/sse'' = None \<and>
   connectMcpClient example_newURL refusing_connect None ''http://up.example/sse'' ''mcpClientTool'' 1 =
     (Inr \<lparr>client_name = ''mcpClientTool'', client_version = 1, transport_url = ''http://up.example/sse''\<rparr>,
      [NewSSEClientTransport ''http://up.example/sse'' None, ClientConnect ''http://up.example/sse''])"
proof -
  have a: "\<not> begins_with_scheme []" by (simp add: begins_with_scheme_def)
  have b: "example_newURL (withProtocol []) = Inl (TypeError ''Invalid URL'')"
    by (simp add: withProtocol_def example_newURL_def)
  have c: "example_newURL (withProtocol ''down.example/sse'') = Inr ''https://down.example/sse''"
    by (simp add: withProtocol_def example_newURL_def ci_def)
  have d: "refusing_connect ''https://down.example/sse'' = Some (Error ''SSE error'')"
    by (simp add: refusing_connect_def)
  have e: "example_newURL (withProtocol ''http://up.example/sse'') = Inr ''http://up.example/sse''"
    by (simp add: withProtocol_def example_newURL_def ci_def)
  have f: "refusing_connect ''http://up.example/sse'' = None"
    by (simp add: refusing_connect_def)
  show ?thesis
    using a b c d e f
      connectMcpClient_address_handling [of "[]" example_newURL "TypeError ''Invalid URL''"
        refusing_connect None "''mcpClientTool''" 1 "''x''"]
      connectMcpClient_address_handling [of "''down.example/sse''" example_newURL "Error ''SSE error''"
        refusing_connect None "''mcpClientTool''" 1 "''https://down.example/sse''"]
      connectMcpClient_address_handling [of "''http://up.example/sse''" example_newURL "Error ''SSE error''"
        refusing_connect None "''mcpClientTool''" 1 "''http://up.example/sse''"]
    by simp
qed

subsection \<open>Schema adaptation\<close>

lemma mcpToolToDynamicTool_outcome:
  assumes "\<forall>e. conv (inputSchema t) = Inl e \<longrightarrow> is_UnsupportedSchemaError e"
  shows "mcpToolToDynamicTool conv str t f =
     (case conv (inputSchema t) of
        Inl e \<Rightarrow> Inl (reported_error str t (message e))
      | Inr z \<Rightarrow>
          if typeName z = ''ZodAny'' \<and> \<not> isTrivialOriginalSchema (inputSchema t)
          then Inl (reported_error str t (any_message str t))
          else Inr \<lparr>tool_name = name t,
                    tool_description = (case description t of Some d \<Rightarrow> d | None \<Rightarrow> []),
                    schema = z, func = f, isFromToolkit = True\<rparr>)"
  using assms
  by (cases "conv (inputSchema t)")
     (simp_all add: mcpToolToDynamicTool_def convertChecked_def reported_error_def any_message_def)

lemma isTrivial_shapes:
  "isTrivialOriginalSchema None"
  "isTrivialOriginalSchema (Some (JObj []))"
  "isTrivialOriginalSchema (Some (JBool True))"
  "fs \<noteq> [] \<Longrightarrow> \<not> isTrivialOriginalSchema (Some (JObj fs))"
proof -
  show "fs \<noteq> [] \<Longrightarrow> \<not> isTrivialOriginalSchema (Some (JObj fs))"
    by (cases fs) (auto simp add: isTrivialOriginalSchema_def)
qed (simp_all add: isTrivialOriginalSchema_def)

text \<open>
  Claim C5 as stated fails in three ways. The error class: a tool whose schema
  \<open>{type: "string", default: "x"}\<close> is converted to a \<open>ZodAny\<close> validator is refused,
  but the \<open>UnsupportedSchemaError\<close> thrown inside the \<open>try\<close> is caught by the
  function's own \<open>catch\<close>, and the caller receives a \<open>NodeOperationError\<close>. The
  schemas taken for trivial: the schema \<open>false\<close> is not absent, not an empty object and
  not \<open>true\<close>, yet \<open>!tool.inputSchema\<close> holds for it and the tool is returned with the
  \<open>ZodAny\<close> validator. The type tag: the validator \<open>parseRef\<close> compiles for a root
  self-reference accepts every value but is tagged \<open>ZodLazy\<close>, so the tool with the
  schema \<open>{$ref: "#"}\<close> is returned with it.
\<close>

theorem any_validator_counterexample:
  "any_converter (inputSchema default_tool) = Inr ZodAny \<and>
   isl (mcpToolToDynamicTool any_converter show_schema default_tool ()) \<and>
   \<not> is_UnsupportedSchemaError
       (projl (mcpToolToDynamicTool any_converter show_schema default_tool ())) \<and>
   any_converter (inputSchema false_schema_tool) = Inr ZodAny \<and>
   inputSchema false_schema_tool = Some (JBool False) \<and>
   mcpToolToDynamicTool any_converter show_schema false_schema_tool () =
     Inr \<lparr>tool_name = ''never'', tool_description = [], schema = ZodAny, func = (),
          isFromToolkit = True\<rparr> \<and>
   inputSchema self_reference_tool = Some (JObj [(''$ref'', JStr ''#'')]) \<and>
   isl (mcpToolToDynamicTool self_reference_converter show_schema self_reference_tool ()) = False \<and>
   accepts (schema (projr (mcpToolToDynamicTool self_reference_converter show_schema
                             self_reference_tool ()))) (JNum 42)"
proof -
  have a: "\<forall>e. any_converter (inputSchema t) = Inl e \<longrightarrow> is_UnsupportedSchemaError e" for t
    by (simp add: any_converter_def)
  have r: "\<forall>e. self_reference_converter (inputSchema t) = Inl e \<longrightarrow> is_UnsupportedSchemaError e" for t
    by (simp add: self_reference_converter_def parseRef_def)
  have c: "any_converter s = Inr ZodAny" for s by (simp add: any_converter_def)
  have nt: "\<not> isTrivialOriginalSchema (inputSchema default_tool)"
    by (simp add: default_tool_def isTrivialOriginalSchema_def)
  have tf: "isTrivialOriginalSchema (inputSchema false_schema_tool)"
    by (simp add: false_schema_tool_def isTrivialOriginalSchema_def)
  have rc: "self_reference_converter s = Inr (ZodLazy (\<lambda>u. ZodAny))" for s
    by (simp add: self_reference_converter_def parseRef_def)
  have 1: "mcpToolToDynamicTool any_converter show_schema default_tool () =
      Inl (reported_error show_schema default_tool (any_message show_schema default_tool))"
    by (simp add: mcpToolToDynamicTool_outcome [of any_converter default_tool, OF a] c nt)
  have 2: "mcpToolToDynamicTool any_converter show_schema false_schema_tool () =
     Inr \<lparr>tool_name = ''never'', tool_description = [], schema = ZodAny, func = (),
          isFromToolkit = True\<rparr>"
    by (simp add: mcpToolToDynamicTool_outcome [of any_converter false_schema_tool, OF a] c tf)
       (simp add: false_schema_tool_def)
  have 3: "mcpToolToDynamicTool self_reference_converter show_schema self_reference_tool () =
     Inr \<lparr>tool_name = ''tree'', tool_description = [],
          schema = projr (self_reference_converter None), func = (), isFromToolkit = True\<rparr>"
    by (simp add: mcpToolToDynamicTool_outcome [of self_reference_converter self_reference_tool,
          OF r] rc)
       (simp add: self_reference_tool_def)
  have 4: "accepts (projr (self_reference_converter None)) (JNum 42)"
    by (simp add: self_reference_converter_def parseRef_def)
  show ?thesis
    unfolding 1 2 3
    using 4
    by (simp add: reported_error_def any_converter_def false_schema_tool_def
        self_reference_tool_def)
qed

text \<open>
  Claim C5, amended. If the conversion yields a validator tagged \<open>ZodAny\<close> and the
  input schema is an object with at least one key, the \<open>try\<close> block throws
  \<open>UnsupportedSchemaError\<close> and \<open>mcpToolToDynamicTool\<close> fails with the
  \<open>NodeOperationError\<close> that embeds that error's message and the input schema; no tool
  is returned. If the conversion of an absent schema, of the empty object or of \<open>true\<close>
  succeeds, the tool is returned with the validator the conversion produced, without
  error.
\<close>

theorem any_validator_refused_for_keyed_schema:
  "(conv (inputSchema tool) = Inr z \<and> typeName z = ''ZodAny'' \<and>
      inputSchema tool = Some (JObj fs) \<and> fs \<noteq> [] \<longrightarrow>
      convertChecked conv str tool = Inl (UnsupportedSchemaError (any_message str tool)) \<and>
      mcpToolToDynamicTool conv str tool f =
        Inl (reported_error str tool (any_message str tool))) \<and>
   (conv (inputSchema tool) = Inr z \<and>
      (inputSchema tool = None \<or> inputSchema tool = Some (JObj []) \<or>
       inputSchema tool = Some (JBool True)) \<longrightarrow>
      mcpToolToDynamicTool conv str tool f =
        Inr \<lparr>tool_name = name tool,
             tool_description = (case description tool of Some d \<Rightarrow> d | None \<Rightarrow> []),
             schema = z, func = f, isFromToolkit = True\<rparr>)"
proof -
  have 1: "convertChecked conv str tool = Inl (UnsupportedSchemaError (any_message str tool)) \<and>
      mcpToolToDynamicTool conv str tool f =
        Inl (reported_error str tool (any_message str tool))"
    if "conv (inputSchema tool) = Inr z" "typeName z = ''ZodAny''"
      "inputSchema tool = Some (JObj fs)" "fs \<noteq> []"
  proof -
    from that(3,4) have "\<not> isTrivialOriginalSchema (inputSchema tool)"
      by (simp add: isTrivial_shapes)
    with that(1,2) show ?thesis
      by (simp add: mcpToolToDynamicTool_def convertChecked_def reported_error_def
          any_message_def)
  qed
  have 2: "mcpToolToDynamicTool conv str tool f =
        Inr \<lparr>tool_name = name tool,
             tool_description = (case description tool of Some d \<Rightarrow> d | None \<Rightarrow> []),
             schema = z, func = f, isFromToolkit = True\<rparr>"
    if "conv (inputSchema tool) = Inr z"
      "inputSchema tool = None \<or> inputSchema tool = Some (JObj []) \<or>
       inputSchema tool = Some (JBool True)"
  proof -
    from that(2) have "isTrivialOriginalSchema (inputSchema tool)"
      using isTrivial_shapes(1-3) by auto
    with that(1) show ?thesis
      by (simp add: mcpToolToDynamicTool_def convertChecked_def)
  qed
  from 1 2 show ?thesis by blast
qed

theorem any_validator_refused_for_keyed_schema_witness:
  "any_converter (inputSchema default_tool) = Inr ZodAny \<and> typeName ZodAny = ''ZodAny'' \<and>
   inputSchema default_tool = Some (JObj [(''type'', JStr ''string''), (''default'', JStr ''x'')]) \<and>
   [(''type'', JStr ''string''), (''default'', JStr ''x'')] \<noteq> [] \<and>
   mcpToolToDynamicTool any_converter show_schema default_tool () =
     Inl (NodeOperationError
       (''Failed to prepare tool '' @ [CHR 0x22] @ ''lookup'' @ [CHR 0x22] @
        '': Schema conversion error. Schema for tool '' @ [CHR 0x22] @ ''lookup'' @ [CHR 0x22] @
        '' was converted to z.any(), indicating an unsupported feature (e.g., 'default' values) or an empty schema that couldn't be processed into a stricter type. Original schema: <schema>. Input schema: <schema>'')) \<and>
   any_converter (inputSchema empty_schema_tool) = Inr ZodAny \<and>
   inputSchema empty_schema_tool = Some (JObj []) \<and>
   mcpToolToDynamicTool any_converter show_schema empty_schema_tool () =
     Inr \<lparr>tool_name = ''ping'', tool_description = [], schema = ZodAny, func = (),
          isFromToolkit = True\<rparr>"
proof -
  have a: "any_converter (inputSchema default_tool) = Inr ZodAny"
    "any_converter (inputSchema empty_schema_tool) = Inr ZodAny"
    by (simp_all add: any_converter_def)
  have n: "typeName ZodAny = ''ZodAny''" by simp
  have s: "inputSchema default_tool =
      Some (JObj [(''type'', JStr ''string''), (''default'', JStr ''x'')])"
    "name default_tool = ''lookup''"
    by (simp_all add: default_tool_def)
  have d: "[(''type'', JStr ''string''), (''default'', JStr ''x'')] \<noteq> []" by simp
  have e: "inputSchema empty_schema_tool = Some (JObj [])" "name empty_schema_tool = ''ping''"
    "description empty_schema_tool = None"
    by (simp_all add: empty_schema_tool_def)
  from any_validator_refused_for_keyed_schema [of any_converter default_tool ZodAny
      "[(''type'', JStr ''string''), (''default'', JStr ''x'')]" show_schema "()"] a(1) n s(1) d
  have "mcpToolToDynamicTool any_converter show_schema default_tool () =
      Inl (reported_error show_schema default_tool (any_message show_schema default_tool))"
    by blast
  then have 1: "mcpToolToDynamicTool any_converter show_schema default_tool () =
     Inl (NodeOperationError
       (''Failed to prepare tool '' @ [CHR 0x22] @ ''lookup'' @ [CHR 0x22] @
        '': Schema conversion error. Schema for tool '' @ [CHR 0x22] @ ''lookup'' @ [CHR 0x22] @
        '' was converted to z.any(), indicating an unsupported feature (e.g., 'default' values) or an empty schema that couldn't be processed into a stricter type. Original schema: <schema>. Input schema: <schema>''))"
    by (simp add: reported_error_def any_message_def s show_schema_def)
  from any_validator_refused_for_keyed_schema [of any_converter empty_schema_tool ZodAny
      "[(''type'', JStr ''string''), (''default'', JStr ''x'')]" show_schema "()"] a(2) e
  have 2: "mcpToolToDynamicTool any_converter show_schema empty_schema_tool () =
     Inr \<lparr>tool_name = ''ping'', tool_description = [], schema = ZodAny, func = (),
          isFromToolkit = True\<rparr>"
    by simp
  from a n s(1) d e(1) 1 2 show ?thesis by blast
qed


text \<open>
  Claim C4. Compiling the self-reference does not recurse and is lazy: \<open>parseRef\<close>
  returns a \<open>ZodLazy\<close> at once. But the getter returns \<open>z.any()\<close>: the validator
  compiled for the \<open>next\<close> property of \<open>list_schema\<close> accepts the number \<open>42\<close>, which
  the root schema (an object) excludes. The root schema is not enforced at the referenced
  position.
\<close>

theorem parseRef_self_reference_accepts_anything:
  "isl (parseRef ''#'' (JObj [(''$ref'', JStr ''#'')])
          \<lparr>path = [JStr ''properties'', JStr ''next'']\<rparr>) = False \<and>
   typeName (projr (parseRef ''#'' (JObj [(''$ref'', JStr ''#'')])
          \<lparr>path = [JStr ''properties'', JStr ''next'']\<rparr>)) = ''ZodLazy'' \<and>
   type_keyword_holds list_schema (JNum 42) = False \<and>
   accepts (projr (parseRef ''#'' (JObj [(''$ref'', JStr ''#'')])
          \<lparr>path = [JStr ''properties'', JStr ''next'']\<rparr>)) (JNum 42) = True"
  by (simp add: parseRef_def type_keyword_holds_def list_schema_def)

text \<open>The same holds for every schema, every path and every value.\<close>

lemma parseRef_root_accepts_all:
  "\<exists>getter. parseRef ''#'' jsonSchema refs = Inr (ZodLazy getter) \<and> getter () = ZodAny \<and>
     accepts (ZodLazy getter) v"
  by (simp add: parseRef_def Let_def)

subsection \<open>Toolkit build\<close>

text \<open>
  Claim C6. When the schema adapter fails only with \<open>UnsupportedSchemaError\<close>, the
  build never fails. It returns the tools of the capabilities that compile, in catalogue
  order (none when none compiles), and records for each dropped capability its name and
  a \<open>NodeOperationError\<close> that embeds the tool name, the message of the
  \<open>UnsupportedSchemaError\<close> (the adapter's own, or the one for an accept-anything
  validator of a non-trivial schema) and the input schema.
\<close>

theorem buildToolkit_drops_unsupported:
  "fails_only_unsupported conv catalogue \<longrightarrow>
   buildToolkit conv str f catalogue =
     Inr (concat (map (\<lambda>t. case conv (inputSchema t) of
                          Inl e \<Rightarrow> []
                        | Inr z \<Rightarrow>
                            if typeName z = ''ZodAny'' \<and> \<not> isTrivialOriginalSchema (inputSchema t)
                            then []
                            else [\<lparr>tool_name = name t,
                                   tool_description =
                                     (case description t of Some d \<Rightarrow> d | None \<Rightarrow> []),
                                   schema = z, func = f, isFromToolkit = True\<rparr>]) catalogue),
          concat (map (\<lambda>t. case conv (inputSchema t) of
                          Inl e \<Rightarrow> [(name t, reported_error str t (message e))]
                        | Inr z \<Rightarrow>
                            if typeName z = ''ZodAny'' \<and> \<not> isTrivialOriginalSchema (inputSchema t)
                            then [(name t, reported_error str t (any_message str t))]
                            else []) catalogue))"
proof (induction catalogue)
  case Nil
  show ?case by simp
next
  case (Cons t ts)
  show ?case
  proof
    assume h: "fails_only_unsupported conv (t # ts)"
    then have ht: "\<forall>e. conv (inputSchema t) = Inl e \<longrightarrow> is_UnsupportedSchemaError e"
      and hts: "fails_only_unsupported conv ts"
      by (auto simp: fails_only_unsupported_def)
    note o = mcpToolToDynamicTool_outcome [of conv t str f, OF ht]
    from Cons.IH hts have ih: "buildToolkit conv str f ts =
     Inr (concat (map (\<lambda>t. case conv (inputSchema t) of
                          Inl e \<Rightarrow> []
                        | Inr z \<Rightarrow>
                            if typeName z = ''ZodAny'' \<and> \<not> isTrivialOriginalSchema (inputSchema t)
                            then []
                            else [\<lparr>tool_name = name t,
                                   tool_description =
                                     (case description t of Some d \<Rightarrow> d | None \<Rightarrow> []),
                                   schema = z, func = f, isFromToolkit = True\<rparr>]) ts),
          concat (map (\<lambda>t. case conv (inputSchema t) of
                          Inl e \<Rightarrow> [(name t, reported_error str t (message e))]
                        | Inr z \<Rightarrow>
                            if typeName z = ''ZodAny'' \<and> \<not> isTrivialOriginalSchema (inputSchema t)
                            then [(name t, reported_error str t (any_message str t))]
                            else []) ts))"
      by blast
    show "buildToolkit conv str f (t # ts) =
     Inr (concat (map (\<lambda>t. case conv (inputSchema t) of
                          Inl e \<Rightarrow> []
                        | Inr z \<Rightarrow>
                            if typeName z = ''ZodAny'' \<and> \<not> isTrivialOriginalSchema (inputSchema t)
                            then []
                            else [\<lparr>tool_name = name t,
                                   tool_description =
                                     (case description t of Some d \<Rightarrow> d | None \<Rightarrow> []),
                                   schema = z, func = f, isFromToolkit = True\<rparr>]) (t # ts)),
          concat (map (\<lambda>t. case conv (inputSchema t) of
                          Inl e \<Rightarrow> [(name t, reported_error str t (message e))]
                        | Inr z \<Rightarrow>
                            if typeName z = ''ZodAny'' \<and> \<not> isTrivialOriginalSchema (inputSchema t)
                            then [(name t, reported_error str t (any_message str t))]
                            else []) (t # ts)))"
      by (cases "conv (inputSchema t)") (simp_all add: o ih reported_error_def)
  qed
qed

theorem buildToolkit_drops_unsupported_witness:
  "fails_only_unsupported example_converter [string_tool, default_tool] \<and>
   buildToolkit example_converter show_schema () [string_tool, default_tool] =
     Inr ([\<lparr>tool_name = ''echo'', tool_description = ''Echo'', schema = ZodString, func = (),
            isFromToolkit = True\<rparr>],
          [(''lookup'', NodeOperationError
              (''Failed to prepare tool '' @ [CHR 0x22] @ ''lookup'' @ [CHR 0x22] @
               '': Schema conversion error. Unsupported JSON schema type or structure encountered: string. No specific parser available.. Input schema: <schema>''))])"
proof -
  have h: "fails_only_unsupported example_converter [string_tool, default_tool]"
    by (simp add: fails_only_unsupported_def example_converter_def string_tool_def default_tool_def)
  have c1: "example_converter (inputSchema string_tool) = Inr ZodString"
    by (simp add: example_converter_def string_tool_def)
  have c2: "example_converter (inputSchema default_tool) = Inl (UnsupportedSchemaError
        ''Unsupported JSON schema type or structure encountered: string. No specific parser available.'')"
    by (simp add: example_converter_def default_tool_def)
  have n: "name string_tool = ''echo''" "description string_tool = Some ''Echo''"
    "name default_tool = ''lookup''"
    by (simp_all add: string_tool_def default_tool_def)
  from buildToolkit_drops_unsupported [of example_converter "[string_tool, default_tool]"
      show_schema "()"] h
  have "buildToolkit example_converter show_schema () [string_tool, default_tool] =
     Inr ([\<lparr>tool_name = ''echo'', tool_description = ''Echo'', schema = ZodString, func = (),
            isFromToolkit = True\<rparr>],
          [(''lookup'', NodeOperationError
              (''Failed to prepare tool '' @ [CHR 0x22] @ ''lookup'' @ [CHR 0x22] @
               '': Schema conversion error. Unsupported JSON schema type or structure encountered: string. No specific parser available.. Input schema: <schema>''))])"
    by (simp add: c1 c2 n reported_error_def show_schema_def)
  with h show ?thesis by blast
qed

subsection \<open>The agent's use of tools and close functions\<close>















lemma count_list_phase: "\<forall>e\<in>set evs. phase e \<noteq> phase x \<Longrightarrow> count_list evs x = 0"
  by (auto simp: count_list_0_iff)








text \<open>
  Once the batch loop has been entered and ends, normally or with an error, the
  \<open>finally\<close> block runs. If no close function rejects with \<open>undefined\<close> or \<open>null\<close>,
  it calls every close function exactly once, in order, logs those that reject, and
  leaves the outcome of the loop as it is.
\<close>

lemma runCloseFunctions_calls:
  "\<forall>c\<in>set cs. close_rejects c \<noteq> Some None \<and> close_rejects c \<noteq> Some (Some JNull) \<Longrightarrow>
   fst (runCloseFunctions str cs) = None \<and>
   filter (\<lambda>e. \<exists>k. e = Close k) (snd (runCloseFunctions str cs)) =
     map (\<lambda>c. Close (closer_id c)) cs"
  by (induction cs) (auto split: option.splits prod.splits)

lemma finally_after_loop:
  assumes "getOptionalOutputParser ctx = Inr outputParser" "getTools ctx = Inr res"
    "agent_tools res = IsArray ts" "closeFunctions res = IsArray cs"
    "getOptionalMemory ctx = Inr memory" "getChatModel ctx = Inr model"
    "batchLoop ctx ts (memory \<and> outputParser) 0 [] = (Some r, evs)"
    "fst (runCloseFunctions (stringOf ctx) cs) = None"
  shows "toolsAgentExecute ctx =
     (Some (map_sum id (\<lambda>returnData. [returnData]) r),
      GetTools # map Open (getToolsOpens ctx) @ evs @ snd (runCloseFunctions (stringOf ctx) cs))"
  using assms
  by (cases r; cases "runCloseFunctions (stringOf ctx) cs")
     (simp_all add: toolsAgentExecute_def Let_def)

text \<open>
  Claim C2. The close functions are not called on every exit path. \<open>getTools\<close> has
  returned two close functions, then \<open>getChatModel\<close> rejects: the error leaves
  \<open>toolsAgentExecute\<close> before the \<open>try\<close> block is entered, and no close function is
  called. The same happens at the defensive throw for a \<open>tools\<close> field that is not an
  array. And when the first close function rejects with \<open>undefined\<close>, reading
  \<open>e.message\<close> in the \<open>catch\<close> handler throws: the second close function is not
  called and the \<open>TypeError\<close> replaces the result of the execution.
\<close>

theorem closers_skipped_when_setup_fails:
  "closeFunctions (projr (getTools leaking_ctx)) =
     IsArray [\<lparr>closer_id = 0,
               close_rejects = Some (Some (JObj [(''message'', JStr ''socket hang up'')]))\<rparr>,
              \<lparr>closer_id = 1, close_rejects = None\<rparr>] \<and>
   toolsAgentExecute leaking_ctx =
     (Some (Inl (Error ''Tools Agent requires Chat Model which supports Tools calling'')),
      [GetTools, Open 0, Open 1]) \<and>
   closeFunctions (projr (getTools malformed_ctx)) =
     IsArray [\<lparr>closer_id = 0, close_rejects = None\<rparr>] \<and>
   toolsAgentExecute malformed_ctx =
     (Some (Inl (NodeOperationError
        ''Expected tools to be an array, but got undefined. Tools value: undefined'')),
      [GetTools, Open 0]) \<and>
   toolsAgentExecute undefined_rejection_ctx =
     (Some (Inl (TypeError ''Cannot read properties of undefined (reading 'message')'')),
      [GetTools, Open 0, Open 1,
       ItemStart 0 [''search''], ToolCall 0 ''search'', ToolCall 0 ''search'',
       ItemStart 1 [''search''], ToolCall 1 ''search'',
       ItemStart 2 [''search''], ToolCall 2 ''search'', ToolCall 2 ''search'',
       Close 0])"
proof -
  have "toolsAgentExecute undefined_rejection_ctx =
     (Some (Inl (TypeError ''Cannot read properties of undefined (reading 'message')'')),
      [GetTools, Open 0, Open 1,
       ItemStart 0 [''search''], ToolCall 0 ''search'', ToolCall 0 ''search'',
       ItemStart 1 [''search''], ToolCall 1 ''search'',
       ItemStart 2 [''search''], ToolCall 2 ''search'', ToolCall 2 ''search'',
       Close 0])"
    by code_simp
  then show ?thesis
    by (simp add: toolsAgentExecute_def leaking_ctx_def malformed_ctx_def example_ctx_def
        template_json_def)
qed

end
